theory Spec2Isabelle
  imports Complex_Main "HOL-Library.Sublist" "HOL-Library.Multiset"
begin

section \<open>The analysis script \<^verbatim>\<open>analyze.py\<close>\<close>

text \<open>
  The script is a straight line of statements that drive external tools: the layout
  renderer \<^verbatim>\<open>circo\<close>, the graph library (GraphML reader, profiler, degree centrality),
  the launcher \<^verbatim>\<open>xdg_open\<close> and the plotting library. The statements are embedded one
  by one as state transformers that may raise; the tools themselves are parameters
  (record \<open>env\<close>) or, where the specification describes what they compute, definitions
  marked as modelled from the specification.
\<close>

subsection \<open>Paths and files\<close>

text \<open>
  A path is resolved against the working directory into its list of components;
  empty components and \<^verbatim>\<open>.\<close> are dropped, so \<^verbatim>\<open>./graph.html\<close> and \<^verbatim>\<open>graph.html\<close> name
  the same file. Symbolic links and \<^verbatim>\<open>..\<close> do not occur in the script's paths.
\<close>

fun split_on :: "char \<Rightarrow> string \<Rightarrow> string list" where
  "split_on d [] = [[]]"
| "split_on d (c # cs) =
     (if c = d then [] # split_on d cs
      else (case split_on d cs of [] \<Rightarrow> [[c]] | x # xs \<Rightarrow> (c # x) # xs))"

definition resolve :: "string \<Rightarrow> string list" where
  "resolve p = filter (\<lambda>c. c \<noteq> [] \<and> c \<noteq> ''.'') (split_on CHR ''/'' p)"

type_synonym files = "string list \<rightharpoonup> string"

subsection \<open>The graph and the library operations on it\<close>

text \<open>
  Modelled from the spec: the graph type of the external graph library, "an
  externally-produced node/edge structure" with a node count, an edge count and
  adjacency. The nodes of a loaded graph are \<open>0 ..< nodes g\<close>.
\<close>

record graph =
  nodes :: nat
  edges :: "(nat \<times> nat) list"

definition numberOfNodes :: "graph \<Rightarrow> nat" where
  "numberOfNodes g = nodes g"

definition numberOfEdges :: "graph \<Rightarrow> nat" where
  "numberOfEdges g = length (edges g)"

text \<open>
  Modelled from the spec: degree centrality of the external graph library, "the count
  of edges incident to a node", as "an ordered sequence of real numbers, one per node".
\<close>

definition degree :: "graph \<Rightarrow> nat \<Rightarrow> nat" where
  "degree g v = length (filter (\<lambda>e. fst e = v \<or> snd e = v) (edges g))"

definition DegreeCentrality_scores :: "graph \<Rightarrow> real list" where
  "DegreeCentrality_scores g = map (\<lambda>v. real (degree g v)) [0..<nodes g]"

text \<open>The profile object keeps the graph it was created for and the preset's name.\<close>

datatype profile = Profile graph string

subsection \<open>Python built-ins used by the script\<close>

text \<open>\<^verbatim>\<open>sorted(xs, reverse=True)\<close>: a stable sort under the reversed order.\<close>

definition sorted_reverse :: "'a::linorder list \<Rightarrow> 'a list" where
  "sorted_reverse xs = rev (sort (rev xs))"

text \<open>\<^verbatim>\<open>"{}".format(n)\<close> for a non-negative integer: its decimal digits.\<close>

definition digit_char :: "nat \<Rightarrow> char" where
  "digit_char d = ''0123456789'' ! d"

function str_nat :: "nat \<Rightarrow> string" where
  "str_nat n = (if n < 10 then [digit_char n] else str_nat (n div 10) @ [digit_char (n mod 10)])"
  by pat_completeness auto
termination
  by (relation "measure id") auto

declare str_nat.simps [simp del]

subsection \<open>The plotting library's current figure\<close>

record figure =
  xscale :: string
  yscale :: string
  xlabel :: string
  ylabel :: string
  lines :: "(real \<times> real) list list"

definition new_figure :: figure where
  "new_figure = \<lparr>xscale = ''linear'', yscale = ''linear'', xlabel = [], ylabel = [], lines = []\<rparr>"

subsection \<open>Errors, events and the state of a run\<close>

datatype error =
    ImportError string
  | ProcessExecutionError string
  | IOError string
  | ReaderError
  | NameError string

datatype event =
    Exec string "string list"
  | ReadFile "string list"
  | Wrote "string list" string
  | Printed string
  | Shown figure

text \<open>
  The external tools. \<open>installed\<close> says which commands are on the search path;
  \<open>circo_ps\<close> is the renderer on the text of a DOT file (\<open>None\<close>: it exits non-zero and
  writes nothing); \<open>read_graphml\<close> is the GraphML reader on the text of a file (\<open>None\<close>:
  malformed); \<open>profile_html\<close> is the text of the profiling report of a graph;
  \<open>xdg_open_rc\<close> is the exit code of the launcher, given the content of its target
  (\<open>None\<close>: there is no such file).
\<close>

record env =
  installed :: "string \<Rightarrow> bool"
  circo_ps :: "string \<Rightarrow> string option"
  read_graphml :: "string \<Rightarrow> graph option"
  profile_html :: "graph \<Rightarrow> string"
  xdg_open_rc :: "string option \<Rightarrow> nat"

text \<open>
  The state: the files under the working directory, the command line and environment
  of the process, the events so far, the script's variables \<^verbatim>\<open>graph\<close>, \<^verbatim>\<open>pf\<close>, \<^verbatim>\<open>dd\<close>
  and the plotting library's current figure.
\<close>

record state =
  fs :: files
  argv :: "string list"
  environ :: "string \<rightharpoonup> string"
  trace :: "event list"
  v_graph :: "graph option"
  v_pf :: "profile option"
  v_dd :: "real list option"
  plt :: figure

definition initial :: "files \<Rightarrow> string list \<Rightarrow> (string \<rightharpoonup> string) \<Rightarrow> state" where
  "initial f a e = \<lparr>fs = f, argv = a, environ = e, trace = [], v_graph = None,
     v_pf = None, v_dd = None, plt = new_figure\<rparr>"

type_synonym stmt = "state \<Rightarrow> (error + unit) \<times> state"

definition emit :: "event \<Rightarrow> state \<Rightarrow> state" where
  "emit ev w = w\<lparr>trace := trace w @ [ev]\<rparr>"

definition write_file :: "string \<Rightarrow> string \<Rightarrow> state \<Rightarrow> state" where
  "write_file p c w = emit (Wrote (resolve p) c) (w\<lparr>fs := (fs w)(resolve p \<mapsto> c)\<rparr>)"

subsection \<open>The statements of the script\<close>

text \<open>Line 3: \<^verbatim>\<open>from plumbum.cmd import circo, gv2gml, xdg_open\<close>.\<close>

fun import_cmds :: "env \<Rightarrow> string list \<Rightarrow> error option" where
  "import_cmds E [] = None"
| "import_cmds E (c # cs) = (if installed E c then import_cmds E cs else Some (ImportError c))"

definition stmt_import :: "env \<Rightarrow> stmt" where
  "stmt_import E w =
     (case import_cmds E [''circo'', ''gv2gml'', ''xdg_open''] of
        Some e \<Rightarrow> (Inl e, w)
      | None \<Rightarrow> (Inr (), w))"

text \<open>Line 9: \<^verbatim>\<open>circo["-Tps", "graph/graph.dot", "-o", "graph/graph.ps"]()\<close>.\<close>

definition stmt_circo :: "env \<Rightarrow> stmt" where
  "stmt_circo E w =
     (let w1 = emit (Exec ''circo'' [''-Tps'', ''graph/graph.dot'', ''-o'', ''graph/graph.ps'']) w in
      case fs w (resolve ''graph/graph.dot'') of
        None \<Rightarrow> (Inl (ProcessExecutionError ''circo''), w1)
      | Some d \<Rightarrow>
          (case circo_ps E d of
             None \<Rightarrow> (Inl (ProcessExecutionError ''circo''), w1)
           | Some ps \<Rightarrow> (Inr (), write_file ''graph/graph.ps'' ps w1)))"

text \<open>Line 12: \<^verbatim>\<open>graph = graphio.readGraph("graph/graph.graphml", fileformat=Format.GraphML)\<close>.\<close>

definition stmt_readGraph :: "env \<Rightarrow> stmt" where
  "stmt_readGraph E w =
     (case fs w (resolve ''graph/graph.graphml'') of
        None \<Rightarrow> (Inl (IOError ''graph/graph.graphml''), w)
      | Some x \<Rightarrow>
          (let w1 = emit (ReadFile (resolve ''graph/graph.graphml'')) w in
           case read_graphml E x of
             None \<Rightarrow> (Inl ReaderError, w1)
           | Some g \<Rightarrow> (Inr (), w1\<lparr>v_graph := Some g\<rparr>)))"

text \<open>Line 14: \<^verbatim>\<open>print("Nodes: {} Edges: {}".format(graph.numberOfNodes(), graph.numberOfEdges()))\<close>.\<close>

definition stmt_print :: stmt where
  "stmt_print w =
     (case v_graph w of
        None \<Rightarrow> (Inl (NameError ''graph''), w)
      | Some g \<Rightarrow>
          (Inr (), emit (Printed (''Nodes: '' @ str_nat (numberOfNodes g) @
                                  '' Edges: '' @ str_nat (numberOfEdges g))) w))"

text \<open>Line 18: \<^verbatim>\<open>pf = profiling.Profile.create(graph, preset="minimal")\<close>.\<close>

definition stmt_profile_create :: stmt where
  "stmt_profile_create w =
     (case v_graph w of
        None \<Rightarrow> (Inl (NameError ''graph''), w)
      | Some g \<Rightarrow> (Inr (), w\<lparr>v_pf := Some (Profile g ''minimal'')\<rparr>))"

text \<open>
  Line 19: \<^verbatim>\<open>pf.output("HTML", ".")\<close>.

  Modelled from the spec: the profiler's output operation, which "writes an HTML report
  to disk", namely "\<^verbatim>\<open>graph.html\<close> (profiling report) in the current directory": the
  file \<^verbatim>\<open>graph.html\<close> inside the directory given as second argument.
\<close>

definition Profile_output :: "env \<Rightarrow> profile \<Rightarrow> string \<Rightarrow> string \<Rightarrow> state \<Rightarrow> state" where
  "Profile_output E pf outputType directory w =
     (case pf of Profile g preset \<Rightarrow>
        write_file (directory @ ''/'' @ ''graph.html'') (profile_html E g) w)"

definition stmt_pf_output :: "env \<Rightarrow> stmt" where
  "stmt_pf_output E w =
     (case v_pf w of
        None \<Rightarrow> (Inl (NameError ''pf''), w)
      | Some pf \<Rightarrow> (Inr (), Profile_output E pf ''HTML'' ''.'' w))"

text \<open>Line 20: \<^verbatim>\<open>xdg_open["graph/graph.html"]()\<close>; a non-zero exit code raises.\<close>

definition stmt_xdg_open :: "env \<Rightarrow> stmt" where
  "stmt_xdg_open E w =
     (let w1 = emit (Exec ''xdg_open'' [''graph/graph.html'']) w in
      if xdg_open_rc E (fs w (resolve ''graph/graph.html'')) = 0 then (Inr (), w1)
      else (Inl (ProcessExecutionError ''xdg_open''), w1))"

text \<open>Line 22: \<^verbatim>\<open>dd = sorted(centrality.DegreeCentrality(graph).run().scores(), reverse=True)\<close>.\<close>

definition stmt_dd :: stmt where
  "stmt_dd w =
     (case v_graph w of
        None \<Rightarrow> (Inl (NameError ''graph''), w)
      | Some g \<Rightarrow> (Inr (), w\<lparr>v_dd := Some (sorted_reverse (DegreeCentrality_scores g))\<rparr>))"

text \<open>Lines 23 to 26: the scales and labels of the current figure.\<close>

definition stmt_xscale :: "string \<Rightarrow> stmt" where
  "stmt_xscale s w = (Inr (), w\<lparr>plt := (plt w)\<lparr>xscale := s\<rparr>\<rparr>)"

definition stmt_xlabel :: "string \<Rightarrow> stmt" where
  "stmt_xlabel s w = (Inr (), w\<lparr>plt := (plt w)\<lparr>xlabel := s\<rparr>\<rparr>)"

definition stmt_yscale :: "string \<Rightarrow> stmt" where
  "stmt_yscale s w = (Inr (), w\<lparr>plt := (plt w)\<lparr>yscale := s\<rparr>\<rparr>)"

definition stmt_ylabel :: "string \<Rightarrow> stmt" where
  "stmt_ylabel s w = (Inr (), w\<lparr>plt := (plt w)\<lparr>ylabel := s\<rparr>\<rparr>)"

text \<open>
  Line 27: \<^verbatim>\<open>plt.plot(dd)\<close>. A single sequence is plotted against its indices
  \<open>0, 1, ...\<close> as one line.
\<close>

definition plot_points :: "real list \<Rightarrow> (real \<times> real) list" where
  "plot_points ys = zip (map real [0..<length ys]) ys"

definition stmt_plot :: stmt where
  "stmt_plot w =
     (case v_dd w of
        None \<Rightarrow> (Inl (NameError ''dd''), w)
      | Some dd \<Rightarrow> (Inr (), w\<lparr>plt := (plt w)\<lparr>lines := lines (plt w) @ [plot_points dd]\<rparr>\<rparr>))"

text \<open>Line 28: \<^verbatim>\<open>plt.show()\<close> displays the current figure and starts a new one.\<close>

definition stmt_show :: stmt where
  "stmt_show w = (Inr (), (emit (Shown (plt w)) w)\<lparr>plt := new_figure\<rparr>)"

subsection \<open>The script\<close>

text \<open>Statements run in order; the first one that raises ends the run.\<close>

fun run :: "stmt list \<Rightarrow> stmt" where
  "run [] w = (Inr (), w)"
| "run (s # ss) w = (case s w of (Inl e, w') \<Rightarrow> (Inl e, w') | (Inr u, w') \<Rightarrow> run ss w')"

text \<open>
  The four steps of the script, after the import line: layout (line 9), graph loader
  (lines 12 to 14), profiler (lines 18 to 20) and centrality plot (lines 22 to 28).
\<close>

definition layout_step :: "env \<Rightarrow> stmt list" where
  "layout_step E = [stmt_circo E]"

definition graph_loader :: "env \<Rightarrow> stmt list" where
  "graph_loader E = [stmt_readGraph E, stmt_print]"

definition profiler :: "env \<Rightarrow> stmt list" where
  "profiler E = [stmt_profile_create, stmt_pf_output E, stmt_xdg_open E]"

definition centrality_plot :: "stmt list" where
  "centrality_plot =
     [stmt_dd,
      stmt_xscale ''log'',
      stmt_xlabel ''degree'',
      stmt_yscale ''log'',
      stmt_ylabel ''number of nodes'',
      stmt_plot,
      stmt_show]"

definition script :: "env \<Rightarrow> stmt list" where
  "script E = stmt_import E # layout_step E @ graph_loader E @ profiler E @ centrality_plot"

definition main :: "env \<Rightarrow> stmt" where
  "main E = run (script E)"

text \<open>The exit status of the interpreter: 1 after an uncaught exception, else 0.\<close>

definition exit_status :: "(error + unit) \<Rightarrow> nat" where
  "exit_status r = (case r of Inl e \<Rightarrow> 1 | Inr u \<Rightarrow> 0)"

text \<open>What the run printed: the lines of its \<open>Printed\<close> events, in order.\<close>

fun printed_of :: "event \<Rightarrow> string list" where
  "printed_of (Printed s) = [s]"
| "printed_of ev = []"

definition stdout :: "state \<Rightarrow> string list" where
  "stdout w = concat (map printed_of (trace w))"

text \<open>The number that a string of decimal digits denotes.\<close>

definition digit_value :: "char \<Rightarrow> nat" where
  "digit_value c = of_char c - 48"

definition decimal_value :: "string \<Rightarrow> nat" where
  "decimal_value s = foldl (\<lambda>a c. 10 * a + digit_value c) 0 s"

subsection \<open>The state a step leaves when it completes\<close>

text \<open>
  What each of the four steps is meant to have done when it completes, as an update of
  the state it started in: the layout step has run the renderer and written
  \<^verbatim>\<open>graph/graph.ps\<close>; the loader has read the GraphML file, bound \<^verbatim>\<open>graph\<close> and printed the
  counts; the profiler has bound \<^verbatim>\<open>pf\<close>, written the report and run the launcher; the
  centrality plot has bound \<^verbatim>\<open>dd\<close> and shown the figure. The script's steps are compared
  with these.
\<close>

definition layout_done :: "state \<Rightarrow> string \<Rightarrow> state" where
  "layout_done w ps =
     w\<lparr>fs := (fs w)([''graph'', ''graph.ps''] \<mapsto> ps),
       trace := trace w @ [Exec ''circo'' [''-Tps'', ''graph/graph.dot'', ''-o'', ''graph/graph.ps''],
                           Wrote [''graph'', ''graph.ps''] ps]\<rparr>"

definition loader_done :: "state \<Rightarrow> graph \<Rightarrow> state" where
  "loader_done w g =
     w\<lparr>trace := trace w @ [ReadFile [''graph'', ''graph.graphml''],
                           Printed (''Nodes: '' @ str_nat (numberOfNodes g) @
                                    '' Edges: '' @ str_nat (numberOfEdges g))],
       v_graph := Some g\<rparr>"

definition profiler_done :: "env \<Rightarrow> state \<Rightarrow> graph \<Rightarrow> state" where
  "profiler_done E w g =
     w\<lparr>fs := (fs w)([''graph.html''] \<mapsto> profile_html E g),
       trace := trace w @ [Wrote [''graph.html''] (profile_html E g),
                           Exec ''xdg_open'' [''graph/graph.html'']],
       v_pf := Some (Profile g ''minimal'')\<rparr>"

definition plot_done :: "state \<Rightarrow> graph \<Rightarrow> state" where
  "plot_done w g =
     w\<lparr>trace := trace w @
         [Shown ((plt w)\<lparr>xscale := ''log'', yscale := ''log'', xlabel := ''degree'',
                  ylabel := ''number of nodes'',
                  lines := lines (plt w) @
                    [plot_points (sorted_reverse (DegreeCentrality_scores g))]\<rparr>)],
       v_dd := Some (sorted_reverse (DegreeCentrality_scores g)),
       plt := new_figure\<rparr>"

subsection \<open>Library calls that may change the graph object\<close>









subsection \<open>A concrete environment\<close>

text \<open>
  For evaluating the script: every command is installed, the renderer prefixes a
  PostScript header, the reader knows one file text and yields the graph \<open>g\<close> for it,
  and the launcher exits with 2 when its target does not exist, else with 0.
\<close>

definition std_xdg_open :: "string option \<Rightarrow> nat" where
  "std_xdg_open c = (case c of None \<Rightarrow> 2 | Some x \<Rightarrow> 0)"

definition example_env :: "graph \<Rightarrow> env" where
  "example_env g =
     \<lparr>installed = (\<lambda>c. True),
      circo_ps = (\<lambda>d. Some (''%!PS '' @ d)),
      read_graphml = (\<lambda>x. if x = ''<graphml/>'' then Some g else None),
      profile_html = (\<lambda>g. ''<html/>''),
      xdg_open_rc = std_xdg_open\<rparr>"

definition path_graph :: graph where
  "path_graph = \<lparr>nodes = 3, edges = [(0, 1), (1, 2)]\<rparr>"

definition edgeless_graph :: graph where
  "edgeless_graph = \<lparr>nodes = 2, edges = []\<rparr>"

text \<open>Both input files; only the DOT file; both inputs and an older \<^verbatim>\<open>graph/graph.html\<close>.\<close>

definition both_inputs :: files where
  "both_inputs = [[''graph'', ''graph.dot''] \<mapsto> ''graph {}'',
                  [''graph'', ''graph.graphml''] \<mapsto> ''<graphml/>'']"

definition only_dot :: files where
  "only_dot = [[''graph'', ''graph.dot''] \<mapsto> ''graph {}'']"

definition inputs_and_page :: files where
  "inputs_and_page = both_inputs([''graph'', ''graph.html''] \<mapsto> ''<html>old</html>'')"

section \<open>Properties\<close>

subsection \<open>Paths, sorting, scores\<close>

lemma resolve_dot [simp]: "resolve ''graph/graph.dot'' = [''graph'', ''graph.dot'']"
  by (simp add: resolve_def)

lemma resolve_ps [simp]: "resolve ''graph/graph.ps'' = [''graph'', ''graph.ps'']"
  by (simp add: resolve_def)

lemma resolve_graphml [simp]: "resolve ''graph/graph.graphml'' = [''graph'', ''graph.graphml'']"
  by (simp add: resolve_def)

lemma resolve_opened [simp]: "resolve ''graph/graph.html'' = [''graph'', ''graph.html'']"
  by (simp add: resolve_def)

lemma resolve_report [simp]: "resolve ''./graph.html'' = [''graph.html'']"
  by (simp add: resolve_def)

lemma sorted_reverse_length [simp]: "length (sorted_reverse xs) = length xs"
  by (simp add: sorted_reverse_def)

lemma sorted_reverse_mset [simp]: "mset (sorted_reverse xs) = mset xs"
  by (simp add: sorted_reverse_def)

lemma sorted_reverse_desc: "sorted_wrt (\<lambda>a b. b \<le> a) (sorted_reverse xs)"
  unfolding sorted_reverse_def
  by (metis sorted_sort rev_rev_ident sorted_wrt_rev)

lemma sorted_reverse_adjacent:
  assumes "Suc i < length (sorted_reverse xs)"
  shows "sorted_reverse xs ! Suc i \<le> sorted_reverse xs ! i"
  using sorted_reverse_desc [of xs] assms
  by (simp add: sorted_wrt_iff_nth_less)

lemma scores_length [simp]: "length (DegreeCentrality_scores g) = numberOfNodes g"
  by (simp add: DegreeCentrality_scores_def numberOfNodes_def)

lemma scores_zero:
  assumes "numberOfEdges g = 0"
  shows "DegreeCentrality_scores g = replicate (numberOfNodes g) 0"
  using assms
  by (simp add: numberOfEdges_def DegreeCentrality_scores_def degree_def numberOfNodes_def
      map_replicate_const)

subsection \<open>The outcomes of a run\<close>

lemma run_append:
  "run (xs @ ys) w = (case run xs w of (Inl e, w') \<Rightarrow> (Inl e, w') | (Inr u, w') \<Rightarrow> run ys w')"
  by (induction xs arbitrary: w) (auto split: prod.splits sum.splits)

lemmas step_defs = layout_step_def graph_loader_def profiler_def centrality_plot_def

lemmas stmt_defs = stmt_import_def stmt_circo_def stmt_readGraph_def stmt_print_def
  stmt_profile_create_def stmt_pf_output_def Profile_output_def stmt_xdg_open_def stmt_dd_def
  stmt_xscale_def stmt_xlabel_def stmt_yscale_def stmt_ylabel_def stmt_plot_def stmt_show_def
  emit_def write_file_def

lemma main_import_fails:
  assumes "import_cmds E [''circo'', ''gv2gml'', ''xdg_open''] = Some e"
  shows "main E w = (Inl e, w)"
  using assms by (simp add: main_def script_def step_defs stmt_import_def)

lemma main_dot_missing:
  assumes "import_cmds E [''circo'', ''gv2gml'', ''xdg_open''] = None"
    and "fs w [''graph'', ''graph.dot''] = None"
  shows "main E w = (Inl (ProcessExecutionError ''circo''),
     w\<lparr>trace := trace w @ [Exec ''circo'' [''-Tps'', ''graph/graph.dot'', ''-o'', ''graph/graph.ps'']]\<rparr>)"
  using assms by (simp add: main_def script_def step_defs stmt_import_def stmt_circo_def emit_def)

lemma main_circo_fails:
  assumes "import_cmds E [''circo'', ''gv2gml'', ''xdg_open''] = None"
    and "fs w [''graph'', ''graph.dot''] = Some d" and "circo_ps E d = None"
  shows "main E w = (Inl (ProcessExecutionError ''circo''),
     w\<lparr>trace := trace w @ [Exec ''circo'' [''-Tps'', ''graph/graph.dot'', ''-o'', ''graph/graph.ps'']]\<rparr>)"
  using assms by (simp add: main_def script_def step_defs stmt_import_def stmt_circo_def emit_def)

lemma main_graphml_missing:
  assumes "import_cmds E [''circo'', ''gv2gml'', ''xdg_open''] = None"
    and "fs w [''graph'', ''graph.dot''] = Some d" and "circo_ps E d = Some ps"
    and "fs w [''graph'', ''graph.graphml''] = None"
  shows "main E w = (Inl (IOError ''graph/graph.graphml''),
     w\<lparr>fs := (fs w)([''graph'', ''graph.ps''] \<mapsto> ps),
       trace := trace w @ [Exec ''circo'' [''-Tps'', ''graph/graph.dot'', ''-o'', ''graph/graph.ps''],
                           Wrote [''graph'', ''graph.ps''] ps]\<rparr>)"
  using assms
  by (simp add: main_def script_def step_defs stmt_import_def stmt_circo_def stmt_readGraph_def emit_def write_file_def)

lemma main_graphml_malformed:
  assumes "import_cmds E [''circo'', ''gv2gml'', ''xdg_open''] = None"
    and "fs w [''graph'', ''graph.dot''] = Some d" and "circo_ps E d = Some ps"
    and "fs w [''graph'', ''graph.graphml''] = Some x" and "read_graphml E x = None"
  shows "main E w = (Inl ReaderError,
     w\<lparr>fs := (fs w)([''graph'', ''graph.ps''] \<mapsto> ps),
       trace := trace w @ [Exec ''circo'' [''-Tps'', ''graph/graph.dot'', ''-o'', ''graph/graph.ps''],
                           Wrote [''graph'', ''graph.ps''] ps,
                           ReadFile [''graph'', ''graph.graphml'']]\<rparr>)"
  using assms
  by (simp add: main_def script_def step_defs stmt_import_def stmt_circo_def stmt_readGraph_def emit_def write_file_def)

lemma main_viewer_fails:
  assumes "import_cmds E [''circo'', ''gv2gml'', ''xdg_open''] = None"
    and "fs w [''graph'', ''graph.dot''] = Some d" and "circo_ps E d = Some ps"
    and "fs w [''graph'', ''graph.graphml''] = Some x" and "read_graphml E x = Some g"
    and "xdg_open_rc E (fs w [''graph'', ''graph.html'']) \<noteq> 0"
  shows "main E w = (Inl (ProcessExecutionError ''xdg_open''),
     w\<lparr>fs := (fs w)([''graph'', ''graph.ps''] \<mapsto> ps, [''graph.html''] \<mapsto> profile_html E g),
       trace := trace w @ [Exec ''circo'' [''-Tps'', ''graph/graph.dot'', ''-o'', ''graph/graph.ps''],
                           Wrote [''graph'', ''graph.ps''] ps,
                           ReadFile [''graph'', ''graph.graphml''],
                           Printed (''Nodes: '' @ str_nat (numberOfNodes g) @
                                    '' Edges: '' @ str_nat (numberOfEdges g)),
                           Wrote [''graph.html''] (profile_html E g),
                           Exec ''xdg_open'' [''graph/graph.html'']],
       v_graph := Some g, v_pf := Some (Profile g ''minimal'')\<rparr>)"
  using assms
  by (simp add: main_def script_def step_defs stmt_defs)

lemma main_succeeds:
  assumes "import_cmds E [''circo'', ''gv2gml'', ''xdg_open''] = None"
    and "fs w [''graph'', ''graph.dot''] = Some d" and "circo_ps E d = Some ps"
    and "fs w [''graph'', ''graph.graphml''] = Some x" and "read_graphml E x = Some g"
    and "xdg_open_rc E (fs w [''graph'', ''graph.html'']) = 0"
  shows "main E w = (Inr (),
     w\<lparr>fs := (fs w)([''graph'', ''graph.ps''] \<mapsto> ps, [''graph.html''] \<mapsto> profile_html E g),
       trace := trace w @ [Exec ''circo'' [''-Tps'', ''graph/graph.dot'', ''-o'', ''graph/graph.ps''],
                           Wrote [''graph'', ''graph.ps''] ps,
                           ReadFile [''graph'', ''graph.graphml''],
                           Printed (''Nodes: '' @ str_nat (numberOfNodes g) @
                                    '' Edges: '' @ str_nat (numberOfEdges g)),
                           Wrote [''graph.html''] (profile_html E g),
                           Exec ''xdg_open'' [''graph/graph.html''],
                           Shown ((plt w)\<lparr>xscale := ''log'', yscale := ''log'', xlabel := ''degree'',
                              ylabel := ''number of nodes'',
                              lines := lines (plt w) @
                                [plot_points (sorted_reverse (DegreeCentrality_scores g))]\<rparr>)],
       v_graph := Some g, v_pf := Some (Profile g ''minimal''),
       v_dd := Some (sorted_reverse (DegreeCentrality_scores g)),
       plt := new_figure\<rparr>)"
  using assms
  by (simp add: main_def script_def step_defs stmt_defs)

lemma main_cases [case_names import_fails dot_missing circo_fails graphml_missing
    graphml_malformed viewer_fails succeeds]:
  fixes E :: env and w :: state
  obtains e where "import_cmds E [''circo'', ''gv2gml'', ''xdg_open''] = Some e"
  | "import_cmds E [''circo'', ''gv2gml'', ''xdg_open''] = None"
      "fs w [''graph'', ''graph.dot''] = None"
  | d where "import_cmds E [''circo'', ''gv2gml'', ''xdg_open''] = None"
      "fs w [''graph'', ''graph.dot''] = Some d" "circo_ps E d = None"
  | d ps where "import_cmds E [''circo'', ''gv2gml'', ''xdg_open''] = None"
      "fs w [''graph'', ''graph.dot''] = Some d" "circo_ps E d = Some ps"
      "fs w [''graph'', ''graph.graphml''] = None"
  | d ps x where "import_cmds E [''circo'', ''gv2gml'', ''xdg_open''] = None"
      "fs w [''graph'', ''graph.dot''] = Some d" "circo_ps E d = Some ps"
      "fs w [''graph'', ''graph.graphml''] = Some x" "read_graphml E x = None"
  | d ps x g where "import_cmds E [''circo'', ''gv2gml'', ''xdg_open''] = None"
      "fs w [''graph'', ''graph.dot''] = Some d" "circo_ps E d = Some ps"
      "fs w [''graph'', ''graph.graphml''] = Some x" "read_graphml E x = Some g"
      "xdg_open_rc E (fs w [''graph'', ''graph.html'']) \<noteq> 0"
  | d ps x g where "import_cmds E [''circo'', ''gv2gml'', ''xdg_open''] = None"
      "fs w [''graph'', ''graph.dot''] = Some d" "circo_ps E d = Some ps"
      "fs w [''graph'', ''graph.graphml''] = Some x" "read_graphml E x = Some g"
      "xdg_open_rc E (fs w [''graph'', ''graph.html'']) = 0"
  by (metis option.exhaust)

lemma main_success_only:
  assumes "fst (main E w) = Inr ()"
  obtains d ps x g where "import_cmds E [''circo'', ''gv2gml'', ''xdg_open''] = None"
      "fs w [''graph'', ''graph.dot''] = Some d" "circo_ps E d = Some ps"
      "fs w [''graph'', ''graph.graphml''] = Some x" "read_graphml E x = Some g"
      "xdg_open_rc E (fs w [''graph'', ''graph.html'']) = 0"
proof (cases rule: main_cases [where E = E and w = w])
  case (import_fails e)
  with assms show ?thesis by (simp add: main_import_fails)
next
  case dot_missing
  with assms show ?thesis by (simp add: main_dot_missing)
next
  case (circo_fails d)
  with assms show ?thesis by (simp add: main_circo_fails)
next
  case (graphml_missing d ps)
  with assms show ?thesis by (simp add: main_graphml_missing)
next
  case (graphml_malformed d ps x)
  with assms show ?thesis by (simp add: main_graphml_malformed)
next
  case (viewer_fails d ps x g)
  with assms show ?thesis by (simp add: main_viewer_fails)
next
  case (succeeds d ps x g)
  then show ?thesis by (rule that)
qed

subsection \<open>Evaluating the script in the concrete environment\<close>

lemma example_run:
  "main (example_env g) (initial inputs_and_page a e) =
     (Inr (),
      \<lparr>fs = inputs_and_page([''graph'', ''graph.ps''] \<mapsto> ''%!PS graph {}'',
                             [''graph.html''] \<mapsto> ''<html/>''),
       argv = a, environ = e,
       trace = [Exec ''circo'' [''-Tps'', ''graph/graph.dot'', ''-o'', ''graph/graph.ps''],
                Wrote [''graph'', ''graph.ps''] ''%!PS graph {}'',
                ReadFile [''graph'', ''graph.graphml''],
                Printed (''Nodes: '' @ str_nat (numberOfNodes g) @
                         '' Edges: '' @ str_nat (numberOfEdges g)),
                Wrote [''graph.html''] ''<html/>'',
                Exec ''xdg_open'' [''graph/graph.html''],
                Shown \<lparr>xscale = ''log'', yscale = ''log'', xlabel = ''degree'',
                       ylabel = ''number of nodes'',
                       lines = [plot_points (sorted_reverse (DegreeCentrality_scores g))]\<rparr>],
       v_graph = Some g, v_pf = Some (Profile g ''minimal''),
       v_dd = Some (sorted_reverse (DegreeCentrality_scores g)),
       plt = new_figure\<rparr>)"
  by (simp add: main_succeeds [where d = "''graph {}''" and ps = "''%!PS graph {}''"
          and x = "''<graphml/>''" and g = g]
        example_env_def initial_def inputs_and_page_def both_inputs_def std_xdg_open_def new_figure_def)

lemma example_run_no_page:
  "main (example_env g) (initial both_inputs a e) =
     (Inl (ProcessExecutionError ''xdg_open''),
      \<lparr>fs = both_inputs([''graph'', ''graph.ps''] \<mapsto> ''%!PS graph {}'',
                         [''graph.html''] \<mapsto> ''<html/>''),
       argv = a, environ = e,
       trace = [Exec ''circo'' [''-Tps'', ''graph/graph.dot'', ''-o'', ''graph/graph.ps''],
                Wrote [''graph'', ''graph.ps''] ''%!PS graph {}'',
                ReadFile [''graph'', ''graph.graphml''],
                Printed (''Nodes: '' @ str_nat (numberOfNodes g) @
                         '' Edges: '' @ str_nat (numberOfEdges g)),
                Wrote [''graph.html''] ''<html/>'',
                Exec ''xdg_open'' [''graph/graph.html'']],
       v_graph = Some g, v_pf = Some (Profile g ''minimal''),
       v_dd = None, plt = new_figure\<rparr>)"
  by (simp add: main_viewer_fails [where d = "''graph {}''" and ps = "''%!PS graph {}''"
          and x = "''<graphml/>''" and g = g]
        example_env_def initial_def both_inputs_def std_xdg_open_def)

lemma example_run_only_dot:
  "main (example_env g) (initial only_dot a e) =
     (Inl (IOError ''graph/graph.graphml''),
      \<lparr>fs = only_dot([''graph'', ''graph.ps''] \<mapsto> ''%!PS graph {}''),
       argv = a, environ = e,
       trace = [Exec ''circo'' [''-Tps'', ''graph/graph.dot'', ''-o'', ''graph/graph.ps''],
                Wrote [''graph'', ''graph.ps''] ''%!PS graph {}''],
       v_graph = None, v_pf = None, v_dd = None, plt = new_figure\<rparr>)"
  by (simp add: main_graphml_missing [where d = "''graph {}''" and ps = "''%!PS graph {}''"]
        example_env_def initial_def only_dot_def)

lemma example_run_no_files:
  "main (example_env g) (initial Map.empty a e) =
     (Inl (ProcessExecutionError ''circo''),
      \<lparr>fs = Map.empty, argv = a, environ = e,
       trace = [Exec ''circo'' [''-Tps'', ''graph/graph.dot'', ''-o'', ''graph/graph.ps'']],
       v_graph = None, v_pf = None, v_dd = None, plt = new_figure\<rparr>)"
  by (simp add: main_dot_missing example_env_def initial_def)

lemma path_graph_scores: "sorted_reverse (DegreeCentrality_scores path_graph) = [2, 1, 1]"
  by (simp add: sorted_reverse_def DegreeCentrality_scores_def path_graph_def degree_def upt_rec numeral_eq_Suc)

lemma plot_points_example: "plot_points [2, 1, 1] = [(0, 2), (1, 1), (2, 1)]"
proof -
  have "[0..<3] = [0, 1, 2]" by (simp add: upt_rec)
  then show ?thesis by (simp add: plot_points_def)
qed

subsection \<open>Decimal output, sorting and plotting\<close>

lemma digit_value_digit_char:
  assumes "d < 10"
  shows "digit_value (digit_char d) = d"
proof -
  from assms have "d \<in> {0, 1, 2, 3, 4, 5, 6, 7, 8, 9}" by auto
  then show ?thesis
    by (auto simp: digit_char_def digit_value_def)
qed

lemma decimal_value_str_nat: "decimal_value (str_nat n) = n"
proof (induction n rule: str_nat.induct)
  case (1 n)
  show ?case
  proof (cases "n < 10")
    case True
    then show ?thesis
      by (subst str_nat.simps) (simp add: decimal_value_def digit_value_digit_char)
  next
    case False
    with "1" have "decimal_value (str_nat (n div 10)) = n div 10" by simp
    with False show ?thesis
      by (subst str_nat.simps) (simp add: decimal_value_def digit_value_digit_char)
  qed
qed

lemma sorted_reverse_set [simp]: "set (sorted_reverse xs) = set xs"
  by (simp add: sorted_reverse_def)

lemma sorted_reverse_eq: "sorted_reverse xs = rev (sort xs)"
proof -
  have "sort (rev xs) = sort xs"
    by (rule properties_for_sort) simp_all
  then show ?thesis by (simp add: sorted_reverse_def)
qed

lemma plot_points_nth:
  assumes "i < length ys"
  shows "plot_points ys ! i = (real i, ys ! i)"
  using assms by (simp add: plot_points_def)

subsection \<open>The steps one by one\<close>

lemmas done_defs = layout_done_def loader_done_def profiler_done_def plot_done_def

lemma main_chain:
  "main E w =
     (case stmt_import E w of (Inl e, w') \<Rightarrow> (Inl e, w') | (Inr u, w0) \<Rightarrow>
     (case run (layout_step E) w0 of (Inl e, w') \<Rightarrow> (Inl e, w') | (Inr u, w1) \<Rightarrow>
     (case run (graph_loader E) w1 of (Inl e, w') \<Rightarrow> (Inl e, w') | (Inr u, w2) \<Rightarrow>
     (case run (profiler E) w2 of (Inl e, w') \<Rightarrow> (Inl e, w') | (Inr u, w3) \<Rightarrow>
      run centrality_plot w3))))"
  by (simp add: main_def script_def run_append split: prod.splits sum.splits)

lemma layout_step_ok:
  assumes "run (layout_step E) s = (Inr (), s')"
  shows "\<exists>d ps. fs s [''graph'', ''graph.dot''] = Some d \<and> circo_ps E d = Some ps \<and>
           s' = layout_done s ps"
  using assms
  by (auto simp: layout_step_def stmt_circo_def emit_def write_file_def layout_done_def Let_def
      split: option.splits)

lemma layout_step_fails:
  assumes "run (layout_step E) s = (Inl e, s')"
  shows "e = ProcessExecutionError ''circo'' \<and>
         s' = s\<lparr>trace := trace s @
                [Exec ''circo'' [''-Tps'', ''graph/graph.dot'', ''-o'', ''graph/graph.ps'']]\<rparr>"
  using assms
  by (auto simp: layout_step_def stmt_circo_def emit_def write_file_def Let_def
      split: option.splits)

lemma graph_loader_ok:
  assumes "run (graph_loader E) s = (Inr (), s')"
  shows "\<exists>x g. fs s [''graph'', ''graph.graphml''] = Some x \<and> read_graphml E x = Some g \<and>
           s' = loader_done s g"
  using assms
  by (auto simp: graph_loader_def stmt_readGraph_def stmt_print_def emit_def loader_done_def Let_def
      split: option.splits)

lemma graph_loader_fails:
  assumes "run (graph_loader E) s = (Inl e, s')"
  shows "s' = s \<or> s' = s\<lparr>trace := trace s @ [ReadFile [''graph'', ''graph.graphml'']]\<rparr>"
  using assms
  by (auto simp: graph_loader_def stmt_readGraph_def stmt_print_def emit_def Let_def
      split: option.splits)

lemma profiler_ends:
  assumes "v_graph s = Some g" and "run (profiler E) s = (r, s')"
  shows "s' = profiler_done E s g \<and> (r = Inr () \<or> r = Inl (ProcessExecutionError ''xdg_open''))"
  using assms
  by (auto simp: profiler_def stmt_profile_create_def stmt_pf_output_def Profile_output_def
      stmt_xdg_open_def emit_def write_file_def profiler_done_def Let_def split: if_splits)

lemma centrality_plot_ok:
  assumes "v_graph s = Some g"
  shows "run centrality_plot s = (Inr (), plot_done s g)"
  using assms
  by (simp add: centrality_plot_def stmt_dd_def stmt_xscale_def stmt_xlabel_def stmt_yscale_def
      stmt_ylabel_def stmt_plot_def stmt_show_def emit_def plot_done_def)

lemma main_completed:
  assumes "fst (main E w) = Inr ()"
  shows "\<exists>ps g. snd (main E w) =
           plot_done (profiler_done E (loader_done (layout_done w ps) g) g) g"
proof -
  from assms obtain d ps x g where h: "import_cmds E [''circo'', ''gv2gml'', ''xdg_open''] = None"
      "fs w [''graph'', ''graph.dot''] = Some d" "circo_ps E d = Some ps"
      "fs w [''graph'', ''graph.graphml''] = Some x" "read_graphml E x = Some g"
      "xdg_open_rc E (fs w [''graph'', ''graph.html'']) = 0"
    by (rule main_success_only)
  have "snd (main E w) = plot_done (profiler_done E (loader_done (layout_done w ps) g) g) g"
    by (simp add: main_succeeds [OF h] done_defs)
  then show ?thesis by blast
qed

lemma trace_prefix:
  "\<exists>evs ps line html fig.
     trace (snd (main E w)) = trace w @ evs \<and>
     prefix evs
       [Exec ''circo'' [''-Tps'', ''graph/graph.dot'', ''-o'', ''graph/graph.ps''],
        Wrote [''graph'', ''graph.ps''] ps,
        ReadFile [''graph'', ''graph.graphml''],
        Printed line,
        Wrote [''graph.html''] html,
        Exec ''xdg_open'' [''graph/graph.html''],
        Shown fig] \<and>
     (fst (main E w) = Inr () \<longrightarrow> length evs = 7)"
proof (cases rule: main_cases [where E = E and w = w])
  case (import_fails e)
  then show ?thesis by (simp add: main_import_fails)
next
  case dot_missing
  then show ?thesis by (simp add: main_dot_missing)
next
  case (circo_fails d)
  then show ?thesis by (simp add: main_circo_fails)
next
  case (graphml_missing d ps)
  then show ?thesis by (simp add: main_graphml_missing)
next
  case (graphml_malformed d ps x)
  then show ?thesis by (simp add: main_graphml_malformed)
next
  case (viewer_fails d ps x g)
  then show ?thesis by (simp add: main_viewer_fails)
next
  case (succeeds d ps x g)
  then show ?thesis by (simp add: main_succeeds)
qed

subsection \<open>Library calls without effect on the graph\<close>







section \<open>The claims\<close>

subsection \<open>The centrality scores are one per node and sorted downwards\<close>

text \<open>
  C1. In every run that completes, the sequence \<^verbatim>\<open>dd\<close> that the centrality-plot step
  computes from the graph loaded from the GraphML file has as many elements as the graph
  has nodes, and each element is at least as large as the element after it.
\<close>

theorem centrality_scores_sorted:
  assumes "fst (main E w) = Inr ()"
  shows "\<exists>x g dd. fs w [''graph'', ''graph.graphml''] = Some x \<and> read_graphml E x = Some g \<and>
           v_graph (snd (main E w)) = Some g \<and> v_dd (snd (main E w)) = Some dd \<and>
           length dd = numberOfNodes g \<and>
           (\<forall>i. Suc i < length dd \<longrightarrow> dd ! Suc i \<le> dd ! i)"
proof -
  from assms obtain d ps x g where h: "import_cmds E [''circo'', ''gv2gml'', ''xdg_open''] = None"
      "fs w [''graph'', ''graph.dot''] = Some d" "circo_ps E d = Some ps"
      "fs w [''graph'', ''graph.graphml''] = Some x" "read_graphml E x = Some g"
      "xdg_open_rc E (fs w [''graph'', ''graph.html'']) = 0"
    by (rule main_success_only)
  show ?thesis
    using h(4,5) by (simp add: main_succeeds [OF h] sorted_reverse_adjacent)
qed

text \<open>
  The run on the path graph with three nodes: the scores are 2, 1, 1.
\<close>

theorem centrality_scores_sorted_witness:
  "fst (main (example_env path_graph) (initial inputs_and_page [] Map.empty)) = Inr () \<and>
   v_dd (snd (main (example_env path_graph) (initial inputs_and_page [] Map.empty))) = Some [2, 1, 1] \<and>
   numberOfNodes path_graph = 3"
proof -
  have "numberOfNodes path_graph = 3"
    by (simp add: numberOfNodes_def path_graph_def)
  then show ?thesis
    using centrality_scores_sorted [of "example_env path_graph" "initial inputs_and_page [] Map.empty"]
    by (simp add: example_run path_graph_scores)
qed

subsection \<open>Missing input files\<close>

text \<open>
  C2 as stated does not hold. With \<^verbatim>\<open>graph/graph.graphml\<close> missing and \<^verbatim>\<open>graph/graph.dot\<close>
  present, the run ends with an error, but the layout step has already written
  \<^verbatim>\<open>graph/graph.ps\<close>, which did not exist before the run.
\<close>

theorem missing_graphml_leaves_ps:
  "fs (initial only_dot [] Map.empty) [''graph'', ''graph.graphml''] = None \<and>
   fs (initial only_dot [] Map.empty) [''graph'', ''graph.ps''] = None \<and>
   exit_status (fst (main (example_env path_graph) (initial only_dot [] Map.empty))) = 1 \<and>
   fs (snd (main (example_env path_graph) (initial only_dot [] Map.empty))) [''graph'', ''graph.ps'']
     = Some ''%!PS graph {}''"
  by (simp add: example_run_only_dot exit_status_def) (simp add: initial_def only_dot_def)

text \<open>
  C2, amended. If \<^verbatim>\<open>graph/graph.dot\<close> is missing, the run ends with a non-zero exit status
  and no file has been written. If \<^verbatim>\<open>graph/graph.graphml\<close> is missing, the run ends with
  a non-zero exit status, the HTML report has not been written, and the only file that may
  have been written is \<^verbatim>\<open>graph/graph.ps\<close>; it has been written whenever the commands are
  installed and the layout step succeeded.
\<close>

theorem missing_input_outcome:
  "(fs w [''graph'', ''graph.dot''] = None \<longrightarrow>
      exit_status (fst (main E w)) \<noteq> 0 \<and> fs (snd (main E w)) = fs w) \<and>
   (fs w [''graph'', ''graph.graphml''] = None \<longrightarrow>
      exit_status (fst (main E w)) \<noteq> 0 \<and>
      (fs (snd (main E w)) = fs w \<or>
       (\<exists>d ps. fs w [''graph'', ''graph.dot''] = Some d \<and> circo_ps E d = Some ps \<and>
          fs (snd (main E w)) = (fs w)([''graph'', ''graph.ps''] \<mapsto> ps)))) \<and>
   (import_cmds E [''circo'', ''gv2gml'', ''xdg_open''] = None \<and>
    fs w [''graph'', ''graph.dot''] = Some d \<and> circo_ps E d = Some ps \<and>
    fs w [''graph'', ''graph.graphml''] = None \<longrightarrow>
      fst (main E w) = Inl (IOError ''graph/graph.graphml'') \<and>
      fs (snd (main E w)) = (fs w)([''graph'', ''graph.ps''] \<mapsto> ps))"
proof (intro conjI impI)
  assume a: "fs w [''graph'', ''graph.dot''] = None"
  show "exit_status (fst (main E w)) \<noteq> 0"
    using a by (cases rule: main_cases [where E = E and w = w])
      (simp_all add: main_import_fails main_dot_missing exit_status_def)
  show "fs (snd (main E w)) = fs w"
    using a by (cases rule: main_cases [where E = E and w = w])
      (simp_all add: main_import_fails main_dot_missing)
next
  assume a: "fs w [''graph'', ''graph.graphml''] = None"
  show "exit_status (fst (main E w)) \<noteq> 0"
    using a by (cases rule: main_cases [where E = E and w = w])
      (simp_all add: main_import_fails main_dot_missing main_circo_fails main_graphml_missing
        exit_status_def)
  show "fs (snd (main E w)) = fs w \<or>
       (\<exists>d ps. fs w [''graph'', ''graph.dot''] = Some d \<and> circo_ps E d = Some ps \<and>
          fs (snd (main E w)) = (fs w)([''graph'', ''graph.ps''] \<mapsto> ps))"
    using a by (cases rule: main_cases [where E = E and w = w])
      (simp_all add: main_import_fails main_dot_missing main_circo_fails main_graphml_missing)
next
  assume a: "import_cmds E [''circo'', ''gv2gml'', ''xdg_open''] = None \<and>
    fs w [''graph'', ''graph.dot''] = Some d \<and> circo_ps E d = Some ps \<and>
    fs w [''graph'', ''graph.graphml''] = None"
  then show "fst (main E w) = Inl (IOError ''graph/graph.graphml'')"
    by (simp add: main_graphml_missing)
  from a show "fs (snd (main E w)) = (fs w)([''graph'', ''graph.ps''] \<mapsto> ps)"
    by (simp add: main_graphml_missing)
qed

text \<open>
  A run without any file, and a run with the DOT file only.
\<close>

theorem missing_input_outcome_witness:
  "fs (initial Map.empty [] Map.empty) [''graph'', ''graph.dot''] = None \<and>
   exit_status (fst (main (example_env path_graph) (initial Map.empty [] Map.empty))) \<noteq> 0 \<and>
   fs (snd (main (example_env path_graph) (initial Map.empty [] Map.empty))) = Map.empty \<and>
   fs (initial only_dot [] Map.empty) [''graph'', ''graph.graphml''] = None \<and>
   fst (main (example_env path_graph) (initial only_dot [] Map.empty))
     = Inl (IOError ''graph/graph.graphml'') \<and>
   fs (snd (main (example_env path_graph) (initial only_dot [] Map.empty)))
     = only_dot([''graph'', ''graph.ps''] \<mapsto> ''%!PS graph {}'')"
  using missing_input_outcome [of "initial Map.empty [] Map.empty" "example_env path_graph"]
    missing_input_outcome [of "initial only_dot [] Map.empty" "example_env path_graph"
      "''graph {}''" "''%!PS graph {}''"]
  by (simp add: initial_def only_dot_def example_env_def)

subsection \<open>The report and the file handed to the launcher\<close>

text \<open>
  C3. The profiler writes the report to \<^verbatim>\<open>./graph.html\<close>, but the launcher is run on
  \<^verbatim>\<open>graph/graph.html\<close>, which is another file. In a run on both input files, where no
  \<^verbatim>\<open>graph/graph.html\<close> exists, the report is at \<^verbatim>\<open>graph.html\<close>, the launcher's target
  does not exist, and the run ends in the launcher's failure, before any plot.
\<close>

theorem report_not_opened:
  "fs (snd (main (example_env path_graph) (initial both_inputs [] Map.empty))) (resolve ''./graph.html'')
     = Some ''<html/>'' \<and>
   fs (snd (main (example_env path_graph) (initial both_inputs [] Map.empty)))
     (resolve ''graph/graph.html'') = None \<and>
   resolve ''graph/graph.html'' \<noteq> resolve ''./graph.html'' \<and>
   last (trace (snd (main (example_env path_graph) (initial both_inputs [] Map.empty))))
     = Exec ''xdg_open'' [''graph/graph.html''] \<and>
   fst (main (example_env path_graph) (initial both_inputs [] Map.empty))
     = Inl (ProcessExecutionError ''xdg_open'')"
  by (simp add: example_run_no_page) (simp add: both_inputs_def)

subsection \<open>The loader prints the counts\<close>

text \<open>
  C4. When the layout step has succeeded and the GraphML file reads as a graph with
  \<open>N\<close> nodes and \<open>M\<close> edges, the run prints exactly one line,
  \<^verbatim>\<open>Nodes: N Edges: M\<close>, with both counts written in decimal.
\<close>

theorem loader_prints_counts:
  assumes "import_cmds E [''circo'', ''gv2gml'', ''xdg_open''] = None"
    and "fs w [''graph'', ''graph.dot''] = Some d" and "circo_ps E d = Some ps"
    and "fs w [''graph'', ''graph.graphml''] = Some x" and "read_graphml E x = Some g"
    and "numberOfNodes g = N" and "numberOfEdges g = M"
  shows "stdout (snd (main E w)) = stdout w @ [''Nodes: '' @ str_nat N @ '' Edges: '' @ str_nat M] \<and>
         decimal_value (str_nat N) = N \<and> decimal_value (str_nat M) = M"
proof (cases "xdg_open_rc E (fs w [''graph'', ''graph.html'']) = 0")
  case True
  show ?thesis
    using assms(6,7)
    by (simp add: main_succeeds [OF assms(1-5) True] stdout_def decimal_value_str_nat)
next
  case False
  show ?thesis
    using assms(6,7)
    by (simp add: main_viewer_fails [OF assms(1-5) False] stdout_def decimal_value_str_nat)
qed

text \<open>
  The run on the path graph prints \<^verbatim>\<open>Nodes: 3 Edges: 2\<close>.
\<close>

theorem loader_prints_counts_witness:
  "stdout (snd (main (example_env path_graph) (initial both_inputs [] Map.empty))) =
     [''Nodes: 3 Edges: 2'']"
  using loader_prints_counts [of "example_env path_graph" "initial both_inputs [] Map.empty"
      "''graph {}''" "''%!PS graph {}''" "''<graphml/>''" path_graph 3 2]
  by (simp add: example_env_def initial_def both_inputs_def numberOfNodes_def numberOfEdges_def
      path_graph_def stdout_def str_nat.simps digit_char_def)

subsection \<open>A graph without edges\<close>

text \<open>
  C5. When the loaded graph has no edges, every degree-centrality score is zero, in the
  library's sequence and in the sorted sequence \<^verbatim>\<open>dd\<close>.
\<close>

theorem edgeless_scores_zero:
  assumes "fst (main E w) = Inr ()" and "v_graph (snd (main E w)) = Some g"
    and "numberOfEdges g = 0"
  shows "\<exists>dd. v_dd (snd (main E w)) = Some dd \<and> length dd = numberOfNodes g \<and>
           (\<forall>s \<in> set dd. s = 0) \<and> (\<forall>s \<in> set (DegreeCentrality_scores g). s = 0)"
proof -
  from assms(1) obtain d ps x g' where h: "import_cmds E [''circo'', ''gv2gml'', ''xdg_open''] = None"
      "fs w [''graph'', ''graph.dot''] = Some d" "circo_ps E d = Some ps"
      "fs w [''graph'', ''graph.graphml''] = Some x" "read_graphml E x = Some g'"
      "xdg_open_rc E (fs w [''graph'', ''graph.html'']) = 0"
    by (rule main_success_only)
  from assms(2) have "g' = g" by (simp add: main_succeeds [OF h])
  then show ?thesis
    using scores_zero [OF assms(3)] by (simp add: main_succeeds [OF h])
qed

text \<open>
  The run on the graph with two nodes and no edge.
\<close>

theorem edgeless_scores_zero_witness:
  "fst (main (example_env edgeless_graph) (initial inputs_and_page [] Map.empty)) = Inr () \<and>
   numberOfEdges edgeless_graph = 0 \<and>
   v_dd (snd (main (example_env edgeless_graph) (initial inputs_and_page [] Map.empty))) = Some [0, 0]"
  using edgeless_scores_zero [of "example_env edgeless_graph" "initial inputs_and_page [] Map.empty"
      edgeless_graph]
  by (simp add: example_run numberOfEdges_def numberOfNodes_def edgeless_graph_def
      DegreeCentrality_scores_def degree_def sorted_reverse_def upt_rec numeral_eq_Suc)

subsection \<open>The order of the steps\<close>

text \<open>
  C6. The run is the import line followed by the four steps in the order layout, graph
  loader, profiler, centrality plot: each step starts in the state the step before it
  left on completing, and a step that raises ends the run. A completed layout step has
  written \<^verbatim>\<open>graph/graph.ps\<close> and changed nothing else but the trace; a completed loader
  has bound \<^verbatim>\<open>graph\<close> and printed, leaving files, \<^verbatim>\<open>pf\<close>, \<^verbatim>\<open>dd\<close> and the figure alone;
  the profiler has bound \<^verbatim>\<open>pf\<close> and written the report, leaving \<^verbatim>\<open>dd\<close> and the figure
  alone; the centrality plot binds \<^verbatim>\<open>dd\<close> and shows the figure. So \<^verbatim>\<open>graph/graph.ps\<close> is
  in place when the GraphML file is read and the report when the plot is shown, and the
  events of every run are an initial part of the seven events in this order.
\<close>

theorem steps_in_order:
  "main E w =
     (case stmt_import E w of (Inl e, w') \<Rightarrow> (Inl e, w') | (Inr u, w0) \<Rightarrow>
     (case run (layout_step E) w0 of (Inl e, w') \<Rightarrow> (Inl e, w') | (Inr u, w1) \<Rightarrow>
     (case run (graph_loader E) w1 of (Inl e, w') \<Rightarrow> (Inl e, w') | (Inr u, w2) \<Rightarrow>
     (case run (profiler E) w2 of (Inl e, w') \<Rightarrow> (Inl e, w') | (Inr u, w3) \<Rightarrow>
      run centrality_plot w3)))) \<and>
   (run (layout_step E) s = (Inr (), s') \<longrightarrow>
      (\<exists>d ps. fs s [''graph'', ''graph.dot''] = Some d \<and> circo_ps E d = Some ps \<and>
         s' = layout_done s ps)) \<and>
   (run (layout_step E) s = (Inl e, s') \<longrightarrow>
      s' = s\<lparr>trace := trace s @
             [Exec ''circo'' [''-Tps'', ''graph/graph.dot'', ''-o'', ''graph/graph.ps'']]\<rparr>) \<and>
   (run (graph_loader E) s = (Inr (), s') \<longrightarrow>
      (\<exists>x g. fs s [''graph'', ''graph.graphml''] = Some x \<and> read_graphml E x = Some g \<and>
         s' = loader_done s g)) \<and>
   (run (graph_loader E) s = (Inl e, s') \<longrightarrow>
      s' = s \<or> s' = s\<lparr>trace := trace s @ [ReadFile [''graph'', ''graph.graphml'']]\<rparr>) \<and>
   (v_graph s = Some g \<and> run (profiler E) s = (r, s') \<longrightarrow>
      s' = profiler_done E s g \<and>
      (r = Inr () \<or> r = Inl (ProcessExecutionError ''xdg_open''))) \<and>
   (v_graph s = Some g \<longrightarrow> run centrality_plot s = (Inr (), plot_done s g)) \<and>
   (fst (main E w) = Inr () \<longrightarrow>
      (\<exists>ps g. snd (main E w) =
         plot_done (profiler_done E (loader_done (layout_done w ps) g) g) g)) \<and>
   (\<exists>evs ps line html fig.
      trace (snd (main E w)) = trace w @ evs \<and>
      prefix evs
        [Exec ''circo'' [''-Tps'', ''graph/graph.dot'', ''-o'', ''graph/graph.ps''],
         Wrote [''graph'', ''graph.ps''] ps,
         ReadFile [''graph'', ''graph.graphml''],
         Printed line,
         Wrote [''graph.html''] html,
         Exec ''xdg_open'' [''graph/graph.html''],
         Shown fig] \<and>
      (fst (main E w) = Inr () \<longrightarrow> length evs = 7))"
proof (intro conjI impI)
  show "main E w =
     (case stmt_import E w of (Inl e, w') \<Rightarrow> (Inl e, w') | (Inr u, w0) \<Rightarrow>
     (case run (layout_step E) w0 of (Inl e, w') \<Rightarrow> (Inl e, w') | (Inr u, w1) \<Rightarrow>
     (case run (graph_loader E) w1 of (Inl e, w') \<Rightarrow> (Inl e, w') | (Inr u, w2) \<Rightarrow>
     (case run (profiler E) w2 of (Inl e, w') \<Rightarrow> (Inl e, w') | (Inr u, w3) \<Rightarrow>
      run centrality_plot w3))))"
    by (rule main_chain)
next
  assume "run (layout_step E) s = (Inr (), s')"
  then show "\<exists>d ps. fs s [''graph'', ''graph.dot''] = Some d \<and> circo_ps E d = Some ps \<and>
         s' = layout_done s ps"
    by (rule layout_step_ok)
next
  assume "run (layout_step E) s = (Inl e, s')"
  then show "s' = s\<lparr>trace := trace s @
             [Exec ''circo'' [''-Tps'', ''graph/graph.dot'', ''-o'', ''graph/graph.ps'']]\<rparr>"
    by (simp add: layout_step_fails)
next
  assume "run (graph_loader E) s = (Inr (), s')"
  then show "\<exists>x g. fs s [''graph'', ''graph.graphml''] = Some x \<and> read_graphml E x = Some g \<and>
         s' = loader_done s g"
    by (rule graph_loader_ok)
next
  assume "run (graph_loader E) s = (Inl e, s')"
  then show "s' = s \<or> s' = s\<lparr>trace := trace s @ [ReadFile [''graph'', ''graph.graphml'']]\<rparr>"
    by (rule graph_loader_fails)
next
  assume a: "v_graph s = Some g \<and> run (profiler E) s = (r, s')"
  then show "s' = profiler_done E s g"
    using profiler_ends [of s g E r s'] by simp
  from a show "r = Inr () \<or> r = Inl (ProcessExecutionError ''xdg_open'')"
    using profiler_ends [of s g E r s'] by simp
next
  assume "v_graph s = Some g"
  then show "run centrality_plot s = (Inr (), plot_done s g)"
    by (rule centrality_plot_ok)
next
  assume "fst (main E w) = Inr ()"
  then show "\<exists>ps g. snd (main E w) =
         plot_done (profiler_done E (loader_done (layout_done w ps) g) g) g"
    by (rule main_completed)
next
  show "\<exists>evs ps line html fig.
      trace (snd (main E w)) = trace w @ evs \<and>
      prefix evs
        [Exec ''circo'' [''-Tps'', ''graph/graph.dot'', ''-o'', ''graph/graph.ps''],
         Wrote [''graph'', ''graph.ps''] ps,
         ReadFile [''graph'', ''graph.graphml''],
         Printed line,
         Wrote [''graph.html''] html,
         Exec ''xdg_open'' [''graph/graph.html''],
         Shown fig] \<and>
      (fst (main E w) = Inr () \<longrightarrow> length evs = 7)"
    by (rule trace_prefix)
qed

text \<open>
  The completed run on the path graph passes through the four states; after the layout
  step \<^verbatim>\<open>graph/graph.ps\<close> exists and \<^verbatim>\<open>graph\<close> is not yet bound.
\<close>

theorem steps_in_order_witness:
  "fst (main (example_env path_graph) (initial inputs_and_page [] Map.empty)) = Inr () \<and>
   snd (main (example_env path_graph) (initial inputs_and_page [] Map.empty)) =
     plot_done (profiler_done (example_env path_graph)
       (loader_done (layout_done (initial inputs_and_page [] Map.empty) ''%!PS graph {}'')
          path_graph) path_graph) path_graph \<and>
   run (layout_step (example_env path_graph)) (initial inputs_and_page [] Map.empty) =
     (Inr (), layout_done (initial inputs_and_page [] Map.empty) ''%!PS graph {}'') \<and>
   fs (layout_done (initial inputs_and_page [] Map.empty) ''%!PS graph {}'')
     [''graph'', ''graph.ps''] = Some ''%!PS graph {}'' \<and>
   v_graph (layout_done (initial inputs_and_page [] Map.empty) ''%!PS graph {}'') = None \<and>
   length (trace (snd (main (example_env path_graph) (initial inputs_and_page [] Map.empty)))) = 7"
proof -
  let ?E = "example_env path_graph"
  let ?w = "initial inputs_and_page [] Map.empty"
  have a: "fst (main ?E ?w) = Inr ()"
    by (simp add: example_run)
  have b: "snd (main ?E ?w) =
     plot_done (profiler_done ?E (loader_done (layout_done ?w ''%!PS graph {}'') path_graph)
       path_graph) path_graph"
    by (subst example_run) (simp add: done_defs initial_def new_figure_def example_env_def)
  have c: "run (layout_step ?E) ?w = (Inr (), layout_done ?w ''%!PS graph {}'')"
    by (simp add: layout_step_def stmt_circo_def emit_def write_file_def layout_done_def
        example_env_def initial_def inputs_and_page_def both_inputs_def)
  have d: "fs (layout_done ?w ''%!PS graph {}'') [''graph'', ''graph.ps''] = Some ''%!PS graph {}''"
    by (simp add: layout_done_def)
  have e: "v_graph (layout_done ?w ''%!PS graph {}'') = None"
    by (simp add: layout_done_def initial_def)
  have f: "length (trace (snd (main ?E ?w))) = 7"
    by (simp add: example_run)
  from steps_in_order [of ?E ?w ?w "layout_done ?w ''%!PS graph {}''"] a b c d e f
  show ?thesis by blast
qed

subsection \<open>The graph is not changed after loading\<close>



subsection \<open>Failures are not handled\<close>



subsection \<open>The plot\<close>

text \<open>
  C9. A run that completes shows, as its last event, a figure with logarithmic x- and
  y-scale and one line; the line's points are the elements of \<^verbatim>\<open>dd\<close> against their
  indices, and the point at index \<open>i\<close> carries the score at position \<open>i\<close> of the scores
  sorted downwards.
\<close>

theorem plot_is_log_log_rank_curve:
  assumes "fst (main E (initial f a e)) = Inr ()"
  shows "\<exists>g dd evs fig.
           v_graph (snd (main E (initial f a e))) = Some g \<and>
           v_dd (snd (main E (initial f a e))) = Some dd \<and>
           dd = rev (sort (DegreeCentrality_scores g)) \<and>
           trace (snd (main E (initial f a e))) = evs @ [Shown fig] \<and>
           xscale fig = ''log'' \<and> yscale fig = ''log'' \<and>
           lines fig = [plot_points dd] \<and>
           length (plot_points dd) = length dd \<and>
           (\<forall>i < length dd. plot_points dd ! i =
              (real i, rev (sort (DegreeCentrality_scores g)) ! i))"
proof -
  from assms obtain d ps x g where h:
      "import_cmds E [''circo'', ''gv2gml'', ''xdg_open''] = None"
      "fs (initial f a e) [''graph'', ''graph.dot''] = Some d" "circo_ps E d = Some ps"
      "fs (initial f a e) [''graph'', ''graph.graphml''] = Some x" "read_graphml E x = Some g"
      "xdg_open_rc E (fs (initial f a e) [''graph'', ''graph.html'']) = 0"
    by (rule main_success_only)
  let ?dd = "rev (sort (DegreeCentrality_scores g))"
  let ?fig = "\<lparr>xscale = ''log'', yscale = ''log'', xlabel = ''degree'',
                ylabel = ''number of nodes'', lines = [plot_points ?dd]\<rparr>"
  let ?evs = "[Exec ''circo'' [''-Tps'', ''graph/graph.dot'', ''-o'', ''graph/graph.ps''],
               Wrote [''graph'', ''graph.ps''] ps,
               ReadFile [''graph'', ''graph.graphml''],
               Printed (''Nodes: '' @ str_nat (numberOfNodes g) @
                        '' Edges: '' @ str_nat (numberOfEdges g)),
               Wrote [''graph.html''] (profile_html E g),
               Exec ''xdg_open'' [''graph/graph.html'']]"
  have t: "trace (initial f a e) = []" "plt (initial f a e) = new_figure"
    by (simp_all add: initial_def)
  have 1: "v_graph (snd (main E (initial f a e))) = Some g"
    by (simp add: main_succeeds [OF h])
  have 2: "v_dd (snd (main E (initial f a e))) = Some ?dd"
    by (simp add: main_succeeds [OF h] sorted_reverse_eq)
  have 3: "trace (snd (main E (initial f a e))) = ?evs @ [Shown ?fig]"
    by (simp add: main_succeeds [OF h] t new_figure_def sorted_reverse_eq)
  have 4: "length (plot_points ?dd) = length ?dd"
    by (simp add: plot_points_def)
  have 5: "\<forall>i < length ?dd. plot_points ?dd ! i = (real i, ?dd ! i)"
    by (simp add: plot_points_nth)
  have "v_graph (snd (main E (initial f a e))) = Some g \<and>
        v_dd (snd (main E (initial f a e))) = Some ?dd \<and>
        ?dd = rev (sort (DegreeCentrality_scores g)) \<and>
        trace (snd (main E (initial f a e))) = ?evs @ [Shown ?fig] \<and>
        xscale ?fig = ''log'' \<and> yscale ?fig = ''log'' \<and>
        lines ?fig = [plot_points ?dd] \<and>
        length (plot_points ?dd) = length ?dd \<and>
        (\<forall>i < length ?dd. plot_points ?dd ! i = (real i, ?dd ! i))"
    using 1 2 3 4 5 by simp
  then show ?thesis by blast
qed

text \<open>
  The figure shown for the path graph.
\<close>

theorem plot_is_log_log_rank_curve_witness:
  "fst (main (example_env path_graph) (initial inputs_and_page [] Map.empty)) = Inr () \<and>
   last (trace (snd (main (example_env path_graph) (initial inputs_and_page [] Map.empty)))) =
     Shown \<lparr>xscale = ''log'', yscale = ''log'', xlabel = ''degree'', ylabel = ''number of nodes'',
            lines = [[(0, 2), (1, 1), (2, 1)]]\<rparr>"
proof -
  have s: "rev (sort (DegreeCentrality_scores path_graph)) = [2, 1, 1]"
    using path_graph_scores by (simp add: sorted_reverse_eq)
  show ?thesis
    using plot_is_log_log_rank_curve [of "example_env path_graph" inputs_and_page "[]" Map.empty]
    by (simp add: example_run path_graph_scores plot_points_example s)
qed

subsection \<open>Determinism\<close>

text \<open>
  Two runs with the same tools, the same contents of \<^verbatim>\<open>graph/graph.dot\<close> and
  \<^verbatim>\<open>graph/graph.graphml\<close>, and the same exit code of the launcher, end alike, whatever the
  command line, the environment and the other files are.
\<close>

lemma runs_agree_when_launcher_agrees:
  assumes "f1 [''graph'', ''graph.dot''] = f2 [''graph'', ''graph.dot'']"
    and "f1 [''graph'', ''graph.graphml''] = f2 [''graph'', ''graph.graphml'']"
    and "xdg_open_rc E (f1 [''graph'', ''graph.html'']) = xdg_open_rc E (f2 [''graph'', ''graph.html''])"
  shows "fst (main E (initial f1 a1 e1)) = fst (main E (initial f2 a2 e2)) \<and>
         trace (snd (main E (initial f1 a1 e1))) = trace (snd (main E (initial f2 a2 e2))) \<and>
         v_dd (snd (main E (initial f1 a1 e1))) = v_dd (snd (main E (initial f2 a2 e2)))"
proof -
  have i: "fs (initial f1 a1 e1) = f1" "fs (initial f2 a2 e2) = f2"
    "trace (initial f1 a1 e1) = trace (initial f2 a2 e2)"
    "v_dd (initial f1 a1 e1) = v_dd (initial f2 a2 e2)"
    "plt (initial f1 a1 e1) = plt (initial f2 a2 e2)"
    by (simp_all add: initial_def)
  show ?thesis
  proof (cases rule: main_cases [where E = E and w = "initial f1 a1 e1"])
    case (import_fails e)
    then show ?thesis by (simp add: main_import_fails i)
  next
    case dot_missing
    with assms i have "fs (initial f2 a2 e2) [''graph'', ''graph.dot''] = None" by simp
    with dot_missing show ?thesis by (simp add: main_dot_missing i(3,4))
  next
    case (circo_fails d)
    with assms i have "fs (initial f2 a2 e2) [''graph'', ''graph.dot''] = Some d" by simp
    with circo_fails show ?thesis by (simp add: main_circo_fails i(3,4))
  next
    case (graphml_missing d ps)
    with assms i have "fs (initial f2 a2 e2) [''graph'', ''graph.dot''] = Some d"
      "fs (initial f2 a2 e2) [''graph'', ''graph.graphml''] = None" by simp_all
    with graphml_missing show ?thesis by (simp add: main_graphml_missing i(3,4))
  next
    case (graphml_malformed d ps x)
    with assms i have "fs (initial f2 a2 e2) [''graph'', ''graph.dot''] = Some d"
      "fs (initial f2 a2 e2) [''graph'', ''graph.graphml''] = Some x" by simp_all
    with graphml_malformed show ?thesis by (simp add: main_graphml_malformed i(3,4))
  next
    case (viewer_fails d ps x g)
    with assms i have "fs (initial f2 a2 e2) [''graph'', ''graph.dot''] = Some d"
      "fs (initial f2 a2 e2) [''graph'', ''graph.graphml''] = Some x"
      "xdg_open_rc E (fs (initial f2 a2 e2) [''graph'', ''graph.html'']) \<noteq> 0" by simp_all
    with viewer_fails show ?thesis by (simp add: main_viewer_fails i(3,4))
  next
    case (succeeds d ps x g)
    with assms i have "fs (initial f2 a2 e2) [''graph'', ''graph.dot''] = Some d"
      "fs (initial f2 a2 e2) [''graph'', ''graph.graphml''] = Some x"
      "xdg_open_rc E (fs (initial f2 a2 e2) [''graph'', ''graph.html'']) = 0" by simp_all
    with succeeds show ?thesis by (simp add: main_succeeds i(3,4,5))
  qed
qed

text \<open>
  C10. The launcher is run on \<^verbatim>\<open>graph/graph.html\<close>, which the script does not write, so
  the outcome depends on a third file. Two runs with the same tools on identical
  \<^verbatim>\<open>graph/graph.dot\<close> and \<^verbatim>\<open>graph/graph.graphml\<close> differ: without an older
  \<^verbatim>\<open>graph/graph.html\<close> the run fails in the launcher and plots nothing, with one it
  completes and plots the scores 2, 1, 1.
\<close>

theorem stale_page_changes_outcome:
  "both_inputs [''graph'', ''graph.dot''] = inputs_and_page [''graph'', ''graph.dot''] \<and>
   both_inputs [''graph'', ''graph.graphml''] = inputs_and_page [''graph'', ''graph.graphml''] \<and>
   fst (main (example_env path_graph) (initial both_inputs [] Map.empty))
     = Inl (ProcessExecutionError ''xdg_open'') \<and>
   v_dd (snd (main (example_env path_graph) (initial both_inputs [] Map.empty))) = None \<and>
   fst (main (example_env path_graph) (initial inputs_and_page [] Map.empty)) = Inr () \<and>
   v_dd (snd (main (example_env path_graph) (initial inputs_and_page [] Map.empty)))
     = Some [2, 1, 1]"
  by (simp add: example_run example_run_no_page path_graph_scores)
    (simp add: inputs_and_page_def both_inputs_def)

end
